theory Spec2Isabelle
  imports
    Main
    "HOL-Library.AList"
    "HOL-Library.Char_ord"
    "HOL-Library.List_Lexorder"
begin

section \<open>The configuration derivation helpers of the package generator\<close>

text \<open>
  A shallow embedding of \<^verbatim>\<open>src/lib/helpers.js\<close>: the functions that turn the
  answers of the generator's prompts into the package manifest, the dependency lists, the
  lint-staged tasks, the formatter options and the destination paths.

  JavaScript strings are modelled as \<^typ>\<open>string\<close>; the order on them is the
  lexicographic order on character codes, which is what the default comparison of
  \<^verbatim>\<open>Array.prototype.sort\<close> computes on the ASCII strings the generator handles
  (package names, presets). An answer that a prompt may skip is an \<^typ>\<open>'a option\<close>,
  with \<^term>\<open>None\<close> for \<^verbatim>\<open>undefined\<close>. A \<^verbatim>\<open>throw\<close> is the left
  summand of a sum type.
\<close>

subsection \<open>Values, errors and the answers\<close>

datatype jsval =
    JUndefined
  | JBool bool
  | JNum int
  | JStr string
  | JArr "jsval list"
  | JObj "(string \<times> jsval) list"

text \<open>
  The errors the helpers throw. \<^verbatim>\<open>Error('Unsupported language selected')\<close> is
  \<open>UnsupportedLanguage\<close>; \<^verbatim>\<open>Error(`Unsupported bundler '${props.bundler}'`)\<close>
  is \<open>UnsupportedBundler\<close>, which carries the interpolated bundler; \<open>TypeError\<close> is
  what the runtime throws when a method is called on \<^verbatim>\<open>undefined\<close>.
\<close>

datatype error =
    UnsupportedLanguage
  | UnsupportedBundler string
  | TypeError

text \<open>
  The answers (\<^verbatim>\<open>props\<close>). The field \<^verbatim>\<open>private\<close> is named
  \<open>privateFlag\<close>, since \<open>private\<close> is reserved. The prompts for \<open>name\<close>,
  \<open>description\<close>, \<open>author\<close>, \<open>private\<close>, \<open>license\<close> and \<open>features\<close> are
  always asked and \<open>repositoryName\<close> is always computed; every other answer depends on a
  \<^verbatim>\<open>when\<close> clause and may be undefined.
\<close>

record props =
  name :: string
  description :: string
  author :: string
  repositoryName :: string
  license :: string
  privateFlag :: bool
  features :: "string list"
  language :: "string option"
  bundler :: "string option"
  activationCommands :: "bool option"
  activationHooks :: "string list option"
  rootScopeUsed :: "string option"
  grammarUsed :: "string option"
  workspaceOpenerURIs :: "string option"
  atomDependencies :: "string list option"
  additionalDependencies :: "string list option"
  eslintConfig :: "string option"
  stylelintConfig :: "string option"
  babelPresets :: "string list option"

subsection \<open>String primitives of the language\<close>

text \<open>Template interpolation \<^verbatim>\<open>`${x}`\<close> of a string that may be undefined.\<close>

definition interpolate :: "string option \<Rightarrow> string" where
  "interpolate x = (case x of None \<Rightarrow> ''undefined'' | Some s \<Rightarrow> s)"

text \<open>\<^verbatim>\<open>s.endsWith(t)\<close>.\<close>

definition endsWith :: "string \<Rightarrow> string \<Rightarrow> bool" where
  "endsWith s t = (length t \<le> length s \<and> drop (length s - length t) s = t)"

text \<open>
  \<^verbatim>\<open>s.toLowerCase()\<close>, on the letters A to Z. Every other character is kept. The
  helpers compare the result with three lower-case ASCII words only, and no character
  outside A to Z is lowered to a letter of these words.
\<close>

definition toLowerChar :: "char \<Rightarrow> char" where
  "toLowerChar c =
     (case map_of (zip ''ABCDEFGHIJKLMNOPQRSTUVWXYZ'' ''abcdefghijklmnopqrstuvwxyz'') c of
        None \<Rightarrow> c
      | Some d \<Rightarrow> d)"

definition toLowerCase :: "string \<Rightarrow> string" where
  "toLowerCase s = map toLowerChar s"

text \<open>\<^verbatim>\<open>arr.join(',')\<close> on an array of strings.\<close>

fun joinComma :: "string list \<Rightarrow> string" where
  "joinComma [] = []"
| "joinComma [x] = x"
| "joinComma (x # y # ys) = x @ '','' @ joinComma (y # ys)"

text \<open>Property access \<^verbatim>\<open>obj[key]\<close>: undefined when the key is missing.\<close>

fun field :: "string \<Rightarrow> jsval \<Rightarrow> jsval" where
  "field k (JObj kvs) = (case map_of kvs k of None \<Rightarrow> JUndefined | Some v \<Rightarrow> v)"
| "field k _ = JUndefined"

text \<open>
  \<^verbatim>\<open>arr.map(f)\<close> with a callback that may throw: the elements are visited from
  left to right and the first exception ends the call.
\<close>

fun mapE :: "('a \<Rightarrow> error + 'b) \<Rightarrow> 'a list \<Rightarrow> error + 'b list" where
  "mapE f [] = Inr []"
| "mapE f (x # xs) =
     (case f x of
        Inl e \<Rightarrow> Inl e
      | Inr y \<Rightarrow> (case mapE f xs of Inl e \<Rightarrow> Inl e | Inr ys \<Rightarrow> Inr (y # ys)))"

subsection \<open>Path resolver\<close>

text \<open>
  \<^verbatim>\<open>dirname\<close>, \<^verbatim>\<open>extname\<close> and \<^verbatim>\<open>basename\<close> come from the
  \<^verbatim>\<open>path\<close> module of the runtime, which is not part of the repository: they are
  parameters of the model.
\<close>

record pathModule =
  dirname :: "string \<Rightarrow> string"
  extname :: "string \<Rightarrow> string"
  basename :: "string \<Rightarrow> string \<Rightarrow> string"

definition getDestinationPath ::
  "pathModule \<Rightarrow> string \<Rightarrow> string option \<Rightarrow> error + string" where
  "getDestinationPath path filePath selectedLanguage =
     (let dirName = dirname path filePath;
          extName = extname path filePath;
          baseName = basename path filePath extName
      in case selectedLanguage of
           None \<Rightarrow> Inl TypeError
         | Some l \<Rightarrow>
             if toLowerCase l = ''typescript'' then Inr (dirName @ ''/'' @ baseName @ ''.ts'')
             else if toLowerCase l = ''javascript'' then Inr (dirName @ ''/'' @ baseName @ ''.js'')
             else if toLowerCase l = ''coffeescript''
               then Inr (dirName @ ''/'' @ baseName @ ''.coffee'')
             else Inl UnsupportedLanguage)"

definition getLanguageExtension :: "string option \<Rightarrow> error + string" where
  "getLanguageExtension selectedLanguage =
     (case selectedLanguage of
        None \<Rightarrow> Inl TypeError
      | Some l \<Rightarrow>
          if toLowerCase l = ''typescript'' then Inr ''ts''
          else if toLowerCase l = ''javascript'' then Inr ''js''
          else if toLowerCase l = ''coffeescript'' then Inr ''coffee''
          else Inl UnsupportedLanguage)"

subsection \<open>Dependency resolver\<close>

text \<open>
  An entry of a dependency array: a package name, or a nested array of names, which is what
  \<^verbatim>\<open>devDependencies.push(props.additionalDependencies.map(...))\<close> appends.
\<close>

datatype dep = Pkg string | Pkgs "string list"

text \<open>The string the default comparison of \<^verbatim>\<open>sort()\<close> compares an entry by.\<close>

fun depToString :: "dep \<Rightarrow> string" where
  "depToString (Pkg s) = s"
| "depToString (Pkgs xs) = joinComma xs"

text \<open>
  \<^verbatim>\<open>arr.sort()\<close> without a comparison function: ascending by the entries' strings,
  entries with equal strings in their former order.
\<close>

definition jsSort :: "dep list \<Rightarrow> dep list" where
  "jsSort xs = sort_key depToString xs"

text \<open>The \<^verbatim>\<open>devDependencies\<close> array as it stands before it is sorted.\<close>

definition devDependenciesPushed :: "props \<Rightarrow> dep list" where
  "devDependenciesPushed p =
     map Pkg [''husky'', ''lint-staged'', ''jsonlint'', ''npm-run-all'', ''prettierx'',
              ''source-map-explorer'', ''stylelint'']
     @ (if bundler p = Some ''webpack'' then
          map Pkg [''sass-loader'', ''style-loader'', ''css-loader'', ''webpack-cli'',
                   ''webpack'']
          @ (if language p = Some ''coffeescript'' then [Pkg ''coffee-loader''] else [])
        else if bundler p = Some ''rollup'' then
          map Pkg [''rollup'', ''@rollup/plugin-babel'', ''@rollup/plugin-commonjs'',
                   ''@rollup/plugin-json'', ''@rollup/plugin-node-resolve'',
                   ''rollup-plugin-scss'', ''rollup-plugin-terser'']
          @ (if language p = Some ''coffeescript''
               then [Pkg ''rollup-plugin-coffee-script''] else [])
          @ (if language p = Some ''typescript''
               then [Pkg ''@rollup/plugin-typescript''] else [])
        else [])
     @ (case additionalDependencies p of
          None \<Rightarrow> []
        | Some ads \<Rightarrow> if ads \<noteq> [] then [Pkgs (map (\<lambda>d. d) ads)] else [])
     @ (if language p = Some ''coffeescript'' then
          map Pkg [''coffeelint@2'', ''coffeescript@2'']
        else if language p = Some ''javascript'' then
          map Pkg [''@babel/core'', ''@babel/eslint-parser'',
                   ''@babel/plugin-proposal-export-namespace-from'', ''@babel/preset-env'',
                   ''core-js@3'', ''eslint-plugin-json'', ''eslint-plugin-node'', ''eslint'',
                   ''eslint-config-'' @ interpolate (eslintConfig p)]
          @ (if bundler p = Some ''webpack'' then [Pkg ''babel-loader''] else [])
          @ (case babelPresets p of
               None \<Rightarrow> []
             | Some bps \<Rightarrow> if bps \<noteq> [] then [Pkgs (map (\<lambda>b. b) bps)] else [])
        else if language p = Some ''typescript'' then
          map Pkg [''@babel/core'', ''@babel/eslint-parser'',
                   ''@babel/plugin-proposal-export-namespace-from'', ''@babel/preset-env'',
                   ''@types/atom'', ''@types/node'', ''@typescript-eslint/eslint-plugin'',
                   ''@typescript-eslint/parser'', ''core-js@3'', ''eslint'',
                   ''eslint-config-'' @ interpolate (eslintConfig p), ''eslint-plugin-json'',
                   ''tslib'', ''typescript'']
          @ (if bundler p = Some ''webpack'' then [Pkg ''ts-loader''] else [])
        else [])
     @ (if ''styles'' \<in> set (features p) then
          [Pkg ''stylelint'', Pkg (''stylelint-config-'' @ interpolate (stylelintConfig p))]
        else [])"

definition getDependencies :: "props \<Rightarrow> dep list \<times> dep list" where
  "getDependencies p =
     (let dependencies = [];
          devDependencies = devDependenciesPushed p
      in (jsSort dependencies, jsSort devDependencies))"

subsection \<open>Activation hooks\<close>

text \<open>
  The callback of \<^verbatim>\<open>props.activationHooks.map\<close>. A hook outside the three cases of
  the \<^verbatim>\<open>switch\<close> yields undefined.
\<close>

definition hookEntry :: "props \<Rightarrow> string \<Rightarrow> error + string option" where
  "hookEntry p hook =
     (if hook = ''core:loaded-shell-environment'' then Inr (Some hook)
      else if hook = ''root-scope-used'' then
        (case rootScopeUsed p of
           None \<Rightarrow> Inl TypeError
         | Some r \<Rightarrow>
             Inr (Some (if endsWith r '':root-scope-used'' then r
                        else r @ '':root-scope-used'')))
      else if hook = ''grammar-used'' then
        (case grammarUsed p of
           None \<Rightarrow> Inl TypeError
         | Some g \<Rightarrow>
             Inr (Some (if endsWith g '':root-scope-used'' then g
                        else g @ '':grammar-used'')))
      else Inr None)"

definition getActivationHooks :: "props \<Rightarrow> error + string option list" where
  "getActivationHooks p =
     (case activationHooks p of
        None \<Rightarrow> Inl TypeError
      | Some hooks \<Rightarrow> mapE (hookEntry p) hooks)"

subsection \<open>Script composer\<close>

definition getWatchScript :: "props \<Rightarrow> error + string" where
  \<open>getWatchScript p =
     (if ''code'' \<notin> set (features p) then Inr ''echo "Nothing to watch"''
      else if bundler p = Some ''webpack'' then Inr ''webpack --watch --mode none''
      else if bundler p = Some ''rollup'' then Inr ''rollup --watch --config''
      else Inl (UnsupportedBundler (interpolate (bundler p))))\<close>

definition getBuildScript :: "props \<Rightarrow> error + string" where
  \<open>getBuildScript p =
     (if ''code'' \<notin> set (features p) then Inr ''echo "Nothing to build"''
      else if bundler p = Some ''webpack'' then Inr ''webpack --mode production''
      else if bundler p = Some ''rollup'' then Inr ''rollup --config''
      else Inl (UnsupportedBundler (interpolate (bundler p))))\<close>

subsection \<open>Formatter configuration\<close>

definition getPrettierConfig :: "string option \<Rightarrow> (string \<times> jsval) list option" where
  "getPrettierConfig eslintConfig' =
     (if eslintConfig' = Some ''airbnb'' then
        Some [(''arrowParens'', JStr ''always''), (''bracketSpacing'', JBool False),
              (''quoteProps'', JStr ''as-needed''), (''semi'', JBool True),
              (''singleQuote'', JBool True), (''tabWidth'', JNum 2),
              (''trailingComma'', JStr ''all''), (''useTabs'', JBool False)]
      else if eslintConfig' = Some ''google'' then
        Some [(''arrowParens'', JStr ''always''), (''bracketSpacing'', JBool False),
              (''quoteProps'', JStr ''consistent''), (''semi'', JBool False),
              (''singleQuote'', JBool True), (''tabWidth'', JNum 2),
              (''useTabs'', JBool False)]
      else if eslintConfig' = Some ''idiomatic'' then
        Some [(''arrowParens'', JStr ''always''), (''bracketSpacing'', JBool True),
              (''singleQuote'', JBool True), (''tabWidth'', JNum 2),
              (''useTabs'', JBool False)]
      else if eslintConfig' = Some ''standard'' then
        Some [(''bracketSpacing'', JBool False), (''semi'', JBool False),
              (''singleQuote'', JBool True), (''tabWidth'', JNum 2),
              (''useTabs'', JBool False)]
      else if eslintConfig' = Some ''semi'' then
        Some [(''bracketSpacing'', JBool False), (''semi'', JBool True),
              (''singleQuote'', JBool True), (''tabWidth'', JNum 2),
              (''useTabs'', JBool False)]
      else if eslintConfig' = Some ''xo'' then
        Some [(''arrowParens'', JStr ''as-needed''), (''bracketSpacing'', JBool False),
              (''semi'', JBool True), (''singleQuote'', JBool False), (''tabWidth'', JNum 2),
              (''useTabs'', JBool True)]
      else None)"

subsection \<open>Lint-staged composer\<close>

text \<open>
  The object \<^verbatim>\<open>lintStagedTasks\<close> is an association list in insertion order;
  \<^verbatim>\<open>obj[key] = value\<close> is \<^const>\<open>AList.update\<close>, which replaces the value of a
  key that is present and appends a new key at the end.
\<close>

definition getLintStaged :: "props \<Rightarrow> (string \<times> string) list" where
  "getLintStaged p =
     (let lintStagedTasks0 =
            [(''*.json'', ''jsonlint --quiet''), (''*.{ts,md,yml}'', ''prettierx --write'')];
          lintStagedTasks1 =
            (if ''code'' \<in> set (features p) then
               (let languageExt =
                      (if language p = Some ''coffeescript'' then Some ''coffee''
                       else if language p = Some ''javascript'' then Some ''js''
                       else if language p = Some ''typescript'' then Some ''ts''
                       else None)
                in AList.update (''*.'' @ interpolate languageExt)
                     (if language p = Some ''coffeescript'' then ''coffeelint ./src''
                      else ''eslint --cache --fix'')
                     lintStagedTasks0)
             else lintStagedTasks0);
          lintStagedTasks2 =
            (if ''styles'' \<in> set (features p) then
               AList.update ''*.(c|le)ss'' ''stylelint --fix'' lintStagedTasks1
             else lintStagedTasks1)
      in lintStagedTasks2)"

subsection \<open>Manifest composer\<close>

definition strOrUndefined :: "string option \<Rightarrow> jsval" where
  "strOrUndefined x = (case x of None \<Rightarrow> JUndefined | Some s \<Rightarrow> JStr s)"

definition arrOrUndefined :: "string list option \<Rightarrow> jsval" where
  "arrOrUndefined x = (case x of None \<Rightarrow> JUndefined | Some xs \<Rightarrow> JArr (map JStr xs))"

text \<open>
  The object literal that \<^verbatim>\<open>composeManifest\<close> returns, given the values of the
  calls that may throw.
\<close>

definition manifestObject ::
  "props \<Rightarrow> string \<Rightarrow> string \<Rightarrow> string \<Rightarrow> string option list \<Rightarrow> jsval" where
  \<open>manifestObject p fileExtension build start hooks =
     JObj [
       (''name'', JStr (name p)),
       (''version'', JStr ''0.0.0''),
       (''description'', JStr (description p)),
       (''license'', JStr (license p)),
       (''private'', JBool (privateFlag p)),
       (''main'', if ''code'' \<in> set (features p) then JStr ''./lib/main'' else JBool False),
       (''scripts'', JObj [
          (''analyze'',
             if ''code'' \<in> set (features p) then JStr ''source-map-explorer lib/**/*.js''
             else JStr ''echo "Nothing to analyze"''),
          (''build'', JStr build),
          (''dev'', JStr ''npm run start''),
          (''lint:code'',
             if ''code'' \<in> set (features p) then
               (if language p = Some ''coffeescript'' then JStr ''coffeelint ./src''
                else JStr (''eslint --ignore-path .gitignore --no-error-on-unmatched-pattern ./src/**/*.''
                           @ fileExtension))
             else JStr ''echo "Nothing to lint"''),
          (''lint:styles'',
             if ''styles'' \<in> set (features p)
               then JStr ''stylelint --allow-empty-input styles/*.{css,less}''
             else JStr ''echo "Nothing to lint"''),
          (''lint'', JStr ''npm-run-all --parallel lint:*''),
          (''postinstall'', JStr ''husky install''),
          (''prepublishOnly'', JStr ''npm run build''),
          (''start'', JStr start),
          (''test'',
             if ''code'' \<in> set (features p)
               then JStr ''echo 'Error: no test specified' && exit 1''
             else JStr ''echo "Nothing to test"'')]),
       (''keywords'', JArr []),
       (''repository'', JObj [
          (''type'', JStr ''git''),
          (''url'', JStr (''https://github.com/'' @ author p @ ''/'' @ repositoryName p))]),
       (''homepage'', JStr (''https://atom.io/packages/'' @ name p)),
       (''bugs'', JObj [
          (''url'', JStr (''https://github.com/'' @ author p @ ''/'' @ repositoryName p
                          @ ''/issues''))]),
       (''engines'', JObj [(''atom'', JStr ''>=1.0.0 <2.0.0'')]),
       (''activationCommands'', JObj [
          (''atom-workspace'', JArr [
             if ''code'' \<in> set (features p) \<and> activationCommands p = Some True
               then JStr (name p @ '':hello-world'')
             else JUndefined])]),
       (''activationHooks'', JArr (map strOrUndefined hooks)),
       (''workspaceOpeners'',
          if ''code'' \<in> set (features p) then strOrUndefined (workspaceOpenerURIs p)
          else JArr []),
       (''package-deps'',
          if ''code'' \<in> set (features p) then arrOrUndefined (atomDependencies p)
          else JArr []),
       (''dependencies'', JObj []),
       (''devDependencies'', JObj []),
       (''lint-staged'', JObj (map (\<lambda>(k, v). (k, JStr v)) (getLintStaged p)))]\<close>

text \<open>
  \<^verbatim>\<open>composeManifest\<close>: the calls that may throw, in the order in which the
  function body and the object literal evaluate them.
\<close>

definition composeManifest :: "props \<Rightarrow> error + jsval" where
  "composeManifest p =
     (case (if ''code'' \<in> set (features p) then getLanguageExtension (language p)
            else Inr '''') of
        Inl e \<Rightarrow> Inl e
      | Inr fileExtension \<Rightarrow>
          (case getBuildScript p of
             Inl e \<Rightarrow> Inl e
           | Inr build \<Rightarrow>
               (case getWatchScript p of
                  Inl e \<Rightarrow> Inl e
                | Inr start \<Rightarrow>
                    (case (if ''code'' \<in> set (features p) then getActivationHooks p
                           else Inr []) of
                       Inl e \<Rightarrow> Inl e
                     | Inr hooks \<Rightarrow>
                         Inr (manifestObject p fileExtension build start hooks)))))"

subsection \<open>Sample answers\<close>

text \<open>
  A record of answers as the prompts produce it with their defaults: a TypeScript package
  bundled with rollup. The concrete instances below are updates of it.
\<close>

definition answersBase :: props where
  "answersBase =
     \<lparr> name = ''my-package'', description = ''An example package'', author = ''octocat'',
       repositoryName = ''atom-my-package'', license = ''MIT'', privateFlag = False,
       features = [''code''], language = Some ''typescript'', bundler = Some ''rollup'',
       activationCommands = Some True, activationHooks = Some [],
       rootScopeUsed = None, grammarUsed = None, workspaceOpenerURIs = None,
       atomDependencies = None, additionalDependencies = Some [],
       eslintConfig = Some ''eslint'', stylelintConfig = None, babelPresets = None \<rparr>"

text \<open>A package with code whose \<open>grammarUsed\<close> answer already carries its suffix.\<close>

definition answersGrammar :: props where
  "answersGrammar =
     answersBase\<lparr>activationHooks := Some [''grammar-used''],
                 grammarUsed := Some ''source.js:grammar-used''\<rparr>"

text \<open>
  A package of styles only: the prompts that depend on the feature \<open>code\<close> are skipped,
  so their answers are undefined.
\<close>

definition answersNoCode :: props where
  "answersNoCode =
     answersBase\<lparr>features := [''styles''], language := None, bundler := None,
                 activationCommands := None, activationHooks := None,
                 additionalDependencies := None, eslintConfig := None,
                 stylelintConfig := Some ''standard''\<rparr>"

text \<open>A JavaScript package with styles, bundled with webpack, both presets \<open>standard\<close>.\<close>

definition answersJsWebpack :: props where
  "answersJsWebpack =
     answersBase\<lparr>features := [''code'', ''styles''], language := Some ''javascript'',
                 bundler := Some ''webpack'', eslintConfig := Some ''standard'',
                 stylelintConfig := Some ''standard''\<rparr>"

section \<open>Properties\<close>

subsection \<open>Auxiliary facts\<close>

lemma endsWith_iff: "endsWith s t \<longleftrightarrow> (\<exists>u. s = u @ t)"
proof
  assume "endsWith s t"
  then have "s = take (length s - length t) s @ t"
    by (metis append_take_drop_id endsWith_def)
  then show "\<exists>u. s = u @ t" ..
next
  assume "\<exists>u. s = u @ t"
  then show "endsWith s t" by (auto simp: endsWith_def)
qed

lemma endsWith_append [simp]: "endsWith (r @ t) t"
  by (simp add: endsWith_def)

lemma mapE_Inr_all2:
  "mapE f xs = Inr ys \<Longrightarrow> list_all2 (\<lambda>x y. f x = Inr y) xs ys"
proof (induction xs arbitrary: ys)
  case Nil
  then show ?case by simp
next
  case (Cons x xs)
  from Cons.prems obtain y ys' where "f x = Inr y" "mapE f xs = Inr ys'" "ys = y # ys'"
    by (auto split: sum.splits)
  with Cons.IH show ?case by simp
qed

lemma mapE_total:
  assumes "\<And>x. x \<in> set xs \<Longrightarrow> \<exists>y. f x = Inr y"
  shows "\<exists>ys. mapE f xs = Inr ys"
  using assms
proof (induction xs)
  case Nil
  show ?case by simp
next
  case (Cons x xs)
  then obtain y where "f x = Inr y" by auto
  moreover from Cons obtain ys where "mapE f xs = Inr ys" by auto
  ultimately show ?case by simp
qed

lemma toLowerCase_known [simp]:
  "toLowerCase ''typescript'' = ''typescript''"
  "toLowerCase ''javascript'' = ''javascript''"
  "toLowerCase ''coffeescript'' = ''coffeescript''"
  by (simp_all add: toLowerCase_def toLowerChar_def)

lemma getActivationHooks_returns:
  assumes "activationHooks p = Some hooks"
    and "''root-scope-used'' \<in> set hooks \<longrightarrow> rootScopeUsed p \<noteq> None"
    and "''grammar-used'' \<in> set hooks \<longrightarrow> grammarUsed p \<noteq> None"
  shows "\<exists>out. getActivationHooks p = Inr out"
proof -
  have "\<exists>y. hookEntry p h = Inr y" if "h \<in> set hooks" for h
    using that assms(2,3) by (auto simp: hookEntry_def split: option.splits)
  then have "\<exists>out. mapE (hookEntry p) hooks = Inr out"
    by (rule mapE_total)
  then show ?thesis
    using assms(1) by (simp add: getActivationHooks_def)
qed

lemma count_list_jsSort: "count_list (jsSort xs) d = count_list xs d"
  by (simp add: jsSort_def count_list_eq_length_filter filter_sort)

lemma stylelint_pushed:
  "count_list (devDependenciesPushed p) (Pkg ''stylelint'')
     = (if ''styles'' \<in> set (features p) then 2 else 1)"
  by (simp add: devDependenciesPushed_def split: option.splits)

lemma pushed_flat:
  assumes "additionalDependencies p \<in> {None, Some []}"
    and "babelPresets p \<in> {None, Some []}"
  shows "\<forall>d \<in> set (devDependenciesPushed p). \<exists>s. d = Pkg s"
  using assms by (auto simp: devDependenciesPushed_def)

subsection \<open>Activation hooks\<close>

text \<open>
  Claim C8. When the hook \<open>root-scope-used\<close> is selected (and \<open>rootScopeUsed\<close> was
  answered, as the prompts ensure), \<^verbatim>\<open>getActivationHooks\<close> returns, and at every
  position of that hook it emits \<open>rootScopeUsed\<close> itself if it ends with
  \<open>:root-scope-used\<close> and \<open>rootScopeUsed\<close> followed by \<open>:root-scope-used\<close>
  otherwise. The emitted value ends with the suffix, and normalising it again leaves it
  unchanged.
\<close>

theorem rootScopeUsed_normalized:
  assumes "rootScopeUsed p = Some r"
    and "activationHooks p = Some hooks"
    and "''grammar-used'' \<in> set hooks \<longrightarrow> grammarUsed p \<noteq> None"
  shows "\<exists>out v. getActivationHooks p = Inr out
           \<and> length out = length hooks
           \<and> v = (if endsWith r '':root-scope-used'' then r else r @ '':root-scope-used'')
           \<and> (\<forall>i < length hooks. hooks ! i = ''root-scope-used'' \<longrightarrow> out ! i = Some v)
           \<and> endsWith v '':root-scope-used''
           \<and> hookEntry (p\<lparr>rootScopeUsed := Some v\<rparr>) ''root-scope-used'' = Inr (Some v)"
proof -
  let ?v = "if endsWith r '':root-scope-used'' then r else r @ '':root-scope-used''"
  have total: "\<exists>y. hookEntry p h = Inr y" if "h \<in> set hooks" for h
    using that assms(1,3) by (auto simp: hookEntry_def split: option.splits)
  then obtain out where out: "mapE (hookEntry p) hooks = Inr out"
    using mapE_total [of hooks "hookEntry p"] by blast
  then have all2: "list_all2 (\<lambda>x y. hookEntry p x = Inr y) hooks out"
    by (rule mapE_Inr_all2)
  have len: "length out = length hooks"
    using all2 by (simp add: list_all2_lengthD)
  have at: "out ! i = Some ?v" if "i < length hooks" "hooks ! i = ''root-scope-used''" for i
  proof -
    have "hookEntry p (hooks ! i) = Inr (out ! i)"
      using all2 that(1) by (rule list_all2_nthD)
    then show ?thesis
      using that(2) assms(1) by (simp add: hookEntry_def)
  qed
  have sfx: "endsWith ?v '':root-scope-used''"
    by simp
  have idem: "hookEntry (p\<lparr>rootScopeUsed := Some ?v\<rparr>) ''root-scope-used'' = Inr (Some ?v)"
    using sfx by (simp add: hookEntry_def)
  show ?thesis
    using out len at sfx idem assms(2) by (simp add: getActivationHooks_def)
qed

theorem rootScopeUsed_normalized_witness:
  "getActivationHooks
     (answersBase\<lparr>activationHooks := Some [''root-scope-used''], rootScopeUsed := Some ''foo''\<rparr>)
   = Inr [Some ''foo:root-scope-used'']
   \<and> hookEntry (answersBase\<lparr>rootScopeUsed := Some ''foo:root-scope-used''\<rparr>) ''root-scope-used''
     = Inr (Some ''foo:root-scope-used'')"
  using rootScopeUsed_normalized
    [of "answersBase\<lparr>activationHooks := Some [''root-scope-used''], rootScopeUsed := Some ''foo''\<rparr>"
        "''foo''" "[''root-scope-used'']"]
  by (simp add: answersBase_def endsWith_def getActivationHooks_def hookEntry_def)

text \<open>
  Claim C1. With the hook \<open>grammar-used\<close> selected, the emitted entry should be
  \<open>grammarUsed\<close> unchanged when it already ends with \<open>:grammar-used\<close>. The code
  tests the suffix \<open>:root-scope-used\<close> instead: for the answer
  \<open>source.js:grammar-used\<close>, which ends with \<open>:grammar-used\<close>, the suffix is
  appended a second time, in \<^verbatim>\<open>getActivationHooks\<close> and in the manifest.
\<close>

theorem grammarUsed_suffix_appended_twice:
  "endsWith ''source.js:grammar-used'' '':grammar-used''
   \<and> getActivationHooks answersGrammar = Inr [Some ''source.js:grammar-used:grammar-used'']
   \<and> map_sum id (field ''activationHooks'') (composeManifest answersGrammar)
       = Inr (JArr [JStr ''source.js:grammar-used:grammar-used''])"
  by (simp add: answersGrammar_def answersBase_def endsWith_def getActivationHooks_def
      hookEntry_def composeManifest_def getLanguageExtension_def
      getBuildScript_def getWatchScript_def manifestObject_def strOrUndefined_def)

subsection \<open>Dependency resolver\<close>

text \<open>
  Claim C2, as stated, fails: nothing removes duplicates. For a package of styles only,
  \<open>stylelint\<close> is pushed by the baseline and by the rule of the feature \<open>styles\<close>, and
  the sorted list of development dependencies holds it twice.
\<close>

theorem dependencies_unique_counterexample:
  "count_list (snd (getDependencies answersNoCode)) (Pkg ''stylelint'') = 2
   \<and> \<not> distinct (snd (getDependencies answersNoCode))"
proof -
  have "\<not> distinct (devDependenciesPushed answersNoCode)"
    by (simp add: devDependenciesPushed_def answersNoCode_def answersBase_def)
  moreover have "count_list (devDependenciesPushed answersNoCode) (Pkg ''stylelint'') = 2"
    by (simp add: stylelint_pushed answersNoCode_def answersBase_def)
  ultimately show ?thesis
    by (simp add: getDependencies_def jsSort_def count_list_jsSort [unfolded jsSort_def])
qed

text \<open>
  Claim C2, amended. For every answer record, each of the two lists is non-decreasing in
  the case-sensitive lexical order of its entries' strings. The list of development
  dependencies holds every pushed entry as often as it was pushed: \<open>stylelint\<close> occurs
  twice whenever the features include \<open>styles\<close>. When neither
  \<open>additionalDependencies\<close> nor \<open>babelPresets\<close> holds an entry, every entry of the
  list is a plain string.
\<close>

theorem dependencies_sorted_not_deduplicated:
  "sorted (map depToString (fst (getDependencies p)))
   \<and> sorted (map depToString (snd (getDependencies p)))
   \<and> (\<forall>d. count_list (snd (getDependencies p)) d = count_list (devDependenciesPushed p) d)
   \<and> (''styles'' \<in> set (features p)
        \<longrightarrow> count_list (snd (getDependencies p)) (Pkg ''stylelint'') = 2)
   \<and> (additionalDependencies p \<in> {None, Some []} \<and> babelPresets p \<in> {None, Some []}
        \<longrightarrow> (\<forall>d \<in> set (snd (getDependencies p)). \<exists>s. d = Pkg s))"
proof -
  have "sorted (map depToString (jsSort xs))" for xs
    by (simp add: jsSort_def)
  moreover have "set (jsSort xs) = set xs" for xs
    by (simp add: jsSort_def)
  ultimately show ?thesis
    using pushed_flat [of p]
    by (simp add: getDependencies_def count_list_jsSort stylelint_pushed)
qed

theorem dependencies_sorted_not_deduplicated_witness:
  "''styles'' \<in> set (features answersNoCode)
   \<and> additionalDependencies answersNoCode \<in> {None, Some []}
   \<and> babelPresets answersNoCode \<in> {None, Some []}
   \<and> snd (getDependencies answersNoCode)
       = map Pkg [''husky'', ''jsonlint'', ''lint-staged'', ''npm-run-all'', ''prettierx'',
                  ''source-map-explorer'', ''stylelint'', ''stylelint'',
                  ''stylelint-config-standard'']"
proof -
  have "snd (getDependencies answersNoCode)
       = map Pkg [''husky'', ''jsonlint'', ''lint-staged'', ''npm-run-all'', ''prettierx'',
                  ''source-map-explorer'', ''stylelint'', ''stylelint'',
                  ''stylelint-config-standard'']"
    by code_simp
  then show ?thesis
    using dependencies_sorted_not_deduplicated [of answersNoCode]
    by (simp add: answersNoCode_def answersBase_def)
qed

text \<open>
  Claim C9. For every answer record the list of runtime dependencies is empty.
\<close>

theorem runtime_dependencies_empty: "fst (getDependencies p) = []"
  by (simp add: getDependencies_def jsSort_def)

subsection \<open>Path resolver\<close>

text \<open>
  Claim C7, as stated, fails: the language is lower-cased before it is compared, so
  \<open>TypeScript\<close>, which is none of the three known values, is accepted.
\<close>

theorem unsupported_language_counterexample:
  "''TypeScript'' \<notin> {''typescript'', ''javascript'', ''coffeescript''}
   \<and> getLanguageExtension (Some ''TypeScript'') = Inr ''ts''"
  by (simp add: getLanguageExtension_def toLowerCase_def toLowerChar_def)

text \<open>
  Claim C7, amended. The destination path is the directory name of the input, a slash, the
  base name of the input without its extension, and \<open>.ts\<close>, \<open>.js\<close> or \<open>.coffee\<close>
  for the language \<open>typescript\<close>, \<open>javascript\<close> or \<open>coffeescript\<close>. The comparison
  ignores case: both the destination path and the extension lookup raise
  \<open>UnsupportedLanguage\<close> for every language string whose lower-cased form is none of
  the three, and return for every other language string.
\<close>

theorem destination_path_by_language:
  "getDestinationPath path f (Some ''typescript'')
     = Inr (dirname path f @ ''/'' @ basename path f (extname path f) @ ''.ts'')
   \<and> getDestinationPath path f (Some ''javascript'')
     = Inr (dirname path f @ ''/'' @ basename path f (extname path f) @ ''.js'')
   \<and> getDestinationPath path f (Some ''coffeescript'')
     = Inr (dirname path f @ ''/'' @ basename path f (extname path f) @ ''.coffee'')
   \<and> (toLowerCase l \<notin> {''typescript'', ''javascript'', ''coffeescript''}
        \<longrightarrow> getDestinationPath path f (Some l) = Inl UnsupportedLanguage
          \<and> getLanguageExtension (Some l) = Inl UnsupportedLanguage)
   \<and> (toLowerCase l \<in> {''typescript'', ''javascript'', ''coffeescript''}
        \<longrightarrow> (\<exists>r. getDestinationPath path f (Some l) = Inr r)
          \<and> (\<exists>e. getLanguageExtension (Some l) = Inr e))"
  by (auto simp: getDestinationPath_def getLanguageExtension_def Let_def)

theorem destination_path_by_language_witness:
  "toLowerCase ''python'' \<notin> {''typescript'', ''javascript'', ''coffeescript''}
   \<and> getLanguageExtension (Some ''python'') = Inl UnsupportedLanguage
   \<and> (\<forall>path f. getDestinationPath path f (Some ''python'') = Inl UnsupportedLanguage)
   \<and> toLowerCase ''JavaScript'' \<in> {''typescript'', ''javascript'', ''coffeescript''}
   \<and> getLanguageExtension (Some ''JavaScript'') = Inr ''js''"
proof -
  have low: "toLowerCase ''python'' = ''python''" "toLowerCase ''JavaScript'' = ''javascript''"
    by (simp_all add: toLowerCase_def toLowerChar_def)
  have "getLanguageExtension (Some ''JavaScript'') = Inr ''js''"
    by (simp add: getLanguageExtension_def low)
  then show ?thesis
    using destination_path_by_language [where l = "''python''"] low by simp
qed

subsection \<open>Script composer\<close>

text \<open>
  Claim C5. \<^verbatim>\<open>getBuildScript\<close> and \<^verbatim>\<open>getWatchScript\<close> raise if and only if
  the features include \<open>code\<close> and the bundler is neither \<open>rollup\<close> nor \<open>webpack\<close>,
  and the error is then \<open>UnsupportedBundler\<close>; without \<open>code\<close> both return their
  no-op message, whatever the bundler. When one of them raises, \<^verbatim>\<open>composeManifest\<close>
  does not return a manifest, and the error it raises is the error of the script composer
  whenever the extension lookup, which it evaluates first, succeeds.
\<close>

theorem unsupported_bundler:
  \<open>((\<exists>e. getBuildScript p = Inl e)
      \<longleftrightarrow> ''code'' \<in> set (features p) \<and> bundler p \<notin> {Some ''rollup'', Some ''webpack''})
   \<and> ((\<exists>e. getWatchScript p = Inl e)
      \<longleftrightarrow> ''code'' \<in> set (features p) \<and> bundler p \<notin> {Some ''rollup'', Some ''webpack''})
   \<and> (''code'' \<in> set (features p) \<and> bundler p \<notin> {Some ''rollup'', Some ''webpack''}
        \<longrightarrow> getBuildScript p = Inl (UnsupportedBundler (interpolate (bundler p)))
          \<and> getWatchScript p = Inl (UnsupportedBundler (interpolate (bundler p))))
   \<and> (''code'' \<notin> set (features p)
        \<longrightarrow> getBuildScript p = Inr ''echo "Nothing to build"''
          \<and> getWatchScript p = Inr ''echo "Nothing to watch"'')
   \<and> (getBuildScript p = Inl e \<or> getWatchScript p = Inl e
        \<longrightarrow> (\<exists>e'. composeManifest p = Inl e')
          \<and> ((\<exists>ext. getLanguageExtension (language p) = Inr ext)
               \<longrightarrow> composeManifest p = Inl e))\<close>
  by (auto simp: getBuildScript_def getWatchScript_def composeManifest_def
      split: sum.splits if_splits)

theorem unsupported_bundler_witness:
  "''code'' \<in> set (features (answersBase\<lparr>bundler := Some ''grunt''\<rparr>))
   \<and> bundler (answersBase\<lparr>bundler := Some ''grunt''\<rparr>) \<notin> {Some ''rollup'', Some ''webpack''}
   \<and> getBuildScript (answersBase\<lparr>bundler := Some ''grunt''\<rparr>) = Inl (UnsupportedBundler ''grunt'')
   \<and> getWatchScript (answersBase\<lparr>bundler := Some ''grunt''\<rparr>) = Inl (UnsupportedBundler ''grunt'')
   \<and> getLanguageExtension (language (answersBase\<lparr>bundler := Some ''grunt''\<rparr>)) = Inr ''ts''
   \<and> composeManifest (answersBase\<lparr>bundler := Some ''grunt''\<rparr>) = Inl (UnsupportedBundler ''grunt'')"
proof -
  let ?p = "answersBase\<lparr>bundler := Some ''grunt''\<rparr>"
  have code: "''code'' \<in> set (features ?p)" and b: "bundler ?p = Some ''grunt''"
    by (simp_all add: answersBase_def)
  have ext: "getLanguageExtension (language ?p) = Inr ''ts''"
    by (simp add: answersBase_def getLanguageExtension_def)
  from code b ext show ?thesis
    using unsupported_bundler [of ?p "UnsupportedBundler ''grunt''"]
    by (simp add: interpolate_def)
qed

subsection \<open>Formatter configuration\<close>

text \<open>
  Claim C6. For the preset \<open>airbnb\<close> the formatter options are exactly the eight of the
  table, and for every preset outside the six keys, undefined included, the result is
  undefined.
\<close>

theorem getPrettierConfig_table:
  "getPrettierConfig (Some ''airbnb'') =
     Some [(''arrowParens'', JStr ''always''), (''bracketSpacing'', JBool False),
           (''quoteProps'', JStr ''as-needed''), (''semi'', JBool True),
           (''singleQuote'', JBool True), (''tabWidth'', JNum 2),
           (''trailingComma'', JStr ''all''), (''useTabs'', JBool False)]
   \<and> (preset \<notin> Some ` {''airbnb'', ''google'', ''idiomatic'', ''standard'', ''semi'', ''xo''}
        \<longrightarrow> getPrettierConfig preset = None)"
  by (auto simp: getPrettierConfig_def)

theorem getPrettierConfig_table_witness:
  "Some ''eslint'' \<notin> Some ` {''airbnb'', ''google'', ''idiomatic'', ''standard'', ''semi'', ''xo''}
   \<and> getPrettierConfig (Some ''eslint'') = None
   \<and> getPrettierConfig None = None"
  using getPrettierConfig_table [of "Some ''eslint''"] getPrettierConfig_table [of None]
  by simp

subsection \<open>Lint-staged composer\<close>

text \<open>
  Claim C10. When the features include \<open>code\<close> and the language is none of
  \<open>coffeescript\<close>, \<open>javascript\<close> and \<open>typescript\<close> (undefined included), the
  lint-staged tasks are the two fixed entries followed by the entry \<open>*.undefined\<close> with
  the command \<open>eslint --cache --fix\<close>, and by the entry of the styles when that feature
  is selected. The function has no failing branch.
\<close>

theorem getLintStaged_unknown_language:
  assumes "''code'' \<in> set (features p)"
    and "language p \<notin> {Some ''coffeescript'', Some ''javascript'', Some ''typescript''}"
  shows "getLintStaged p =
           [(''*.json'', ''jsonlint --quiet''), (''*.{ts,md,yml}'', ''prettierx --write''),
            (''*.undefined'', ''eslint --cache --fix'')]
           @ (if ''styles'' \<in> set (features p) then [(''*.(c|le)ss'', ''stylelint --fix'')]
              else [])"
  using assms by (simp add: getLintStaged_def interpolate_def)

theorem getLintStaged_unknown_language_witness:
  "getLintStaged (answersBase\<lparr>language := Some ''python''\<rparr>) =
     [(''*.json'', ''jsonlint --quiet''), (''*.{ts,md,yml}'', ''prettierx --write''),
      (''*.undefined'', ''eslint --cache --fix'')]"
  using getLintStaged_unknown_language [of "answersBase\<lparr>language := Some ''python''\<rparr>"]
  by (simp add: answersBase_def)

subsection \<open>Manifest composer\<close>

text \<open>
  Claim C3, as stated, fails: for the answers of the scenario the lint-staged map of the
  manifest has four entries, not three, since both fixed entries are always present.
\<close>

theorem lint_staged_three_entries_counterexample:
  \<open>set (features answersJsWebpack) = {''code'', ''styles''}
   \<and> language answersJsWebpack = Some ''javascript''
   \<and> bundler answersJsWebpack = Some ''webpack''
   \<and> eslintConfig answersJsWebpack = Some ''standard''
   \<and> stylelintConfig answersJsWebpack = Some ''standard''
   \<and> map_sum id (field ''lint-staged'') (composeManifest answersJsWebpack)
       = Inr (JObj [(''*.json'', JStr ''jsonlint --quiet''),
                    (''*.{ts,md,yml}'', JStr ''prettierx --write''),
                    (''*.js'', JStr ''eslint --cache --fix''),
                    (''*.(c|le)ss'', JStr ''stylelint --fix'')])
   \<and> length (getLintStaged answersJsWebpack) \<noteq> 3\<close>
  by (simp add: answersJsWebpack_def answersBase_def composeManifest_def
      getLanguageExtension_def getBuildScript_def getWatchScript_def getActivationHooks_def
      manifestObject_def getLintStaged_def interpolate_def insert_commute)

text \<open>
  Claim C3, amended. For answers with the features \<open>code\<close> and \<open>styles\<close>, the language
  \<open>javascript\<close> and the bundler \<open>webpack\<close> (whatever the two lint presets are, and
  provided each selected activation hook has its answer), the manifest is composed, its
  script \<open>lint:code\<close> is the eslint invocation on the \<open>.js\<close> files, its script
  \<open>lint:styles\<close> is the stylelint invocation, and its lint-staged map has exactly four
  entries: the JSON files, the fixed \<open>{ts,md,yml}\<close> formatter entry, the code extension
  \<open>*.js\<close> and the style extension.
\<close>

theorem manifest_javascript_webpack_styles:
  assumes \<open>set (features p) = {''code'', ''styles''}\<close>
    and \<open>language p = Some ''javascript''\<close>
    and \<open>bundler p = Some ''webpack''\<close>
    and \<open>activationHooks p = Some hooks\<close>
    and \<open>''root-scope-used'' \<in> set hooks \<longrightarrow> rootScopeUsed p \<noteq> None\<close>
    and \<open>''grammar-used'' \<in> set hooks \<longrightarrow> grammarUsed p \<noteq> None\<close>
  shows \<open>\<exists>m. composeManifest p = Inr m
           \<and> field ''lint:code'' (field ''scripts'' m)
               = JStr ''eslint --ignore-path .gitignore --no-error-on-unmatched-pattern ./src/**/*.js''
           \<and> field ''lint:styles'' (field ''scripts'' m)
               = JStr ''stylelint --allow-empty-input styles/*.{css,less}''
           \<and> field ''lint-staged'' m
               = JObj [(''*.json'', JStr ''jsonlint --quiet''),
                       (''*.{ts,md,yml}'', JStr ''prettierx --write''),
                       (''*.js'', JStr ''eslint --cache --fix''),
                       (''*.(c|le)ss'', JStr ''stylelint --fix'')]\<close>
proof -
  have code: "''code'' \<in> set (features p)" and styles: "''styles'' \<in> set (features p)"
    using assms(1) by simp_all
  obtain out where out: "getActivationHooks p = Inr out"
    using getActivationHooks_returns [OF assms(4-6)] by blast
  have ext: "getLanguageExtension (language p) = Inr ''js''"
    by (simp add: assms(2) getLanguageExtension_def)
  have build: \<open>getBuildScript p = Inr ''webpack --mode production''\<close>
    by (simp add: getBuildScript_def code assms(3))
  have start: \<open>getWatchScript p = Inr ''webpack --watch --mode none''\<close>
    by (simp add: getWatchScript_def code assms(3))
  have staged: "getLintStaged p =
      [(''*.json'', ''jsonlint --quiet''), (''*.{ts,md,yml}'', ''prettierx --write''),
       (''*.js'', ''eslint --cache --fix''), (''*.(c|le)ss'', ''stylelint --fix'')]"
    by (simp add: getLintStaged_def code styles assms(2) interpolate_def)
  have m: "composeManifest p =
      Inr (manifestObject p ''js'' ''webpack --mode production''
             ''webpack --watch --mode none'' out)"
    by (simp add: composeManifest_def code ext build start out)
  show ?thesis
    unfolding m by (simp add: manifestObject_def code styles assms(2) staged)
qed

theorem manifest_javascript_webpack_styles_witness:
  \<open>map_sum id (\<lambda>m. field ''lint:code'' (field ''scripts'' m)) (composeManifest answersJsWebpack)
     = Inr (JStr ''eslint --ignore-path .gitignore --no-error-on-unmatched-pattern ./src/**/*.js'')
   \<and> map_sum id (\<lambda>m. field ''lint:styles'' (field ''scripts'' m)) (composeManifest answersJsWebpack)
     = Inr (JStr ''stylelint --allow-empty-input styles/*.{css,less}'')\<close>
proof -
  have "set (features answersJsWebpack) = {''code'', ''styles''}"
    "language answersJsWebpack = Some ''javascript''"
    "bundler answersJsWebpack = Some ''webpack''"
    "activationHooks answersJsWebpack = Some []"
    by (simp_all add: answersJsWebpack_def answersBase_def insert_commute)
  from manifest_javascript_webpack_styles [OF this] show ?thesis
    by auto
qed

text \<open>
  Claim C4. Without the feature \<open>code\<close> the manifest is composed, its scripts
  \<open>build\<close>, \<open>start\<close>, \<open>lint:code\<close> and \<open>test\<close> are no-op messages, and its
  fields \<open>activationHooks\<close>, \<open>workspaceOpeners\<close> and \<open>package-deps\<close> are empty
  arrays. The field \<open>activationCommands\<close> is not empty: the array of
  \<open>atom-workspace\<close> holds one entry, undefined, where the claim asks that no such entry
  is emitted.
\<close>

theorem manifest_without_code:
  assumes \<open>''code'' \<notin> set (features p)\<close>
  shows \<open>\<exists>m. composeManifest p = Inr m
           \<and> field ''build'' (field ''scripts'' m) = JStr ''echo "Nothing to build"''
           \<and> field ''start'' (field ''scripts'' m) = JStr ''echo "Nothing to watch"''
           \<and> field ''lint:code'' (field ''scripts'' m) = JStr ''echo "Nothing to lint"''
           \<and> field ''test'' (field ''scripts'' m) = JStr ''echo "Nothing to test"''
           \<and> field ''activationHooks'' m = JArr []
           \<and> field ''workspaceOpeners'' m = JArr []
           \<and> field ''package-deps'' m = JArr []
           \<and> field ''activationCommands'' m = JObj [(''atom-workspace'', JArr [JUndefined])]\<close>
proof -
  have m: \<open>composeManifest p =
      Inr (manifestObject p '''' ''echo "Nothing to build"'' ''echo "Nothing to watch"'' [])\<close>
    by (simp add: composeManifest_def getBuildScript_def getWatchScript_def assms)
  show ?thesis
    unfolding m by (simp add: manifestObject_def assms)
qed

theorem manifest_without_code_witness:
  \<open>''code'' \<notin> set (features answersNoCode)
   \<and> map_sum id (field ''activationCommands'') (composeManifest answersNoCode)
       = Inr (JObj [(''atom-workspace'', JArr [JUndefined])])\<close>
proof -
  have "''code'' \<notin> set (features answersNoCode)"
    by (simp add: answersNoCode_def answersBase_def)
  from manifest_without_code [OF this] this show ?thesis
    by auto
qed

end
